theory Spec2Isabelle
  imports Complex_Main
begin

section \<open>Python values shared by the environments\<close>

text \<open>
  Exceptions of the Python code are values. \<open>AssertionError\<close> is the failed
  \<^verbatim>\<open>assert self.action_space.contains(action)\<close>, \<open>IndexError\<close> an index outside a
  sequence, \<open>KeyError\<close> a missing dictionary key (with the key), \<open>NotImplementedError\<close>
  the abstract Sampler operation. \<open>ValueError\<close> and \<open>ExternalError\<close> are raised only by
  the libraries the code calls (numpy, gymnasium, MuJoCo).

  Floating-point numbers are idealised as reals throughout.
\<close>

datatype py_error =
    AssertionError
  | IndexError
  | KeyError string
  | NotImplementedError
  | ValueError
  | ExternalError string

text \<open>A task is a Python dictionary from parameter names to values.\<close>

type_synonym 'v task = "string \<rightharpoonup> 'v"

text \<open>\<^verbatim>\<open>xs[i]\<close> on a Python sequence: a negative index counts from the end, an index
  outside the sequence raises.\<close>

definition getitem :: "'a list \<Rightarrow> int \<Rightarrow> py_error + 'a" where
  "getitem xs i =
     (if 0 \<le> i \<and> i < int (length xs) then Inr (xs ! nat i)
      else if i < 0 \<and> - int (length xs) \<le> i then Inr (xs ! nat (int (length xs) + i))
      else Inl IndexError)"

text \<open>\<^verbatim>\<open>np.zeros(n, dtype=np.float32)\<close>, \<^verbatim>\<open>np.full((n,), v)\<close>, \<^verbatim>\<open>np.square\<close>, \<^verbatim>\<open>np.sum\<close>.\<close>

definition np_zeros :: "nat \<Rightarrow> real list" where
  "np_zeros n = replicate n 0"

definition np_full :: "nat \<Rightarrow> real \<Rightarrow> real list" where
  "np_full n v = replicate n v"

definition np_square :: "real list \<Rightarrow> real list" where
  "np_square xs = map (\<lambda>x. x * x) xs"

definition np_sum :: "real list \<Rightarrow> real" where
  "np_sum xs = sum_list xs"

section \<open>The random source\<close>

text \<open>
  The generator object behind \<^verbatim>\<open>self.np_random\<close> belongs to numpy; the code only calls
  it. Its state is a value of type \<open>'g\<close>, and the calls the code makes are the fields of
  an interface record, each taking the state and returning the draw with the new state:
  \<^item> \<open>rng_from_seed s\<close>: the generator that seeding with the integer \<open>s\<close> creates;
  \<^item> \<open>rng_rand n m\<close>: \<^verbatim>\<open>rand(n, m)\<close>, an \<open>n\<close> by \<open>m\<close> array of uniform draws;
  \<^item> \<open>rng_uniform lo hi n\<close>: \<^verbatim>\<open>uniform(lo, hi, size=(n,))\<close>;
  \<^item> \<open>rng_binomial n p\<close>: the scalar draw \<^verbatim>\<open>binomial(n, p)\<close>, which may raise;
  \<^item> \<open>rng_binomial_size n p m\<close>: \<^verbatim>\<open>binomial(n, p=p, size=(m,))\<close>;
  \<^item> \<open>rng_normal mu sigma\<close>: the scalar draw \<^verbatim>\<open>normal(mu, sigma)\<close>, which may raise.
\<close>

record 'g np_random_api =
  rng_from_seed :: "nat \<Rightarrow> 'g"
  rng_rand :: "nat \<Rightarrow> nat \<Rightarrow> 'g \<Rightarrow> real list list \<times> 'g"
  rng_uniform :: "real \<Rightarrow> real \<Rightarrow> nat \<Rightarrow> 'g \<Rightarrow> real list \<times> 'g"
  rng_binomial :: "nat \<Rightarrow> real \<Rightarrow> 'g \<Rightarrow> py_error + int \<times> 'g"
  rng_binomial_size :: "nat \<Rightarrow> real \<Rightarrow> nat \<Rightarrow> 'g \<Rightarrow> int list \<times> 'g"
  rng_normal :: "real \<Rightarrow> real \<Rightarrow> 'g \<Rightarrow> py_error + real \<times> 'g"

text \<open>
  \<^verbatim>\<open>seeding.np_random(seed)\<close> of gym returns the generator and the seed it used. With
  \<^verbatim>\<open>seed=None\<close> the seed comes from the operating system's entropy, here the argument
  \<open>entropy\<close>.
\<close>

definition seeding_np_random :: "'g np_random_api \<Rightarrow> nat \<Rightarrow> nat option \<Rightarrow> 'g \<times> nat" where
  "seeding_np_random R entropy seed' =
     (let s = (case seed' of None \<Rightarrow> entropy | Some s \<Rightarrow> s)
      in (rng_from_seed R s, s))"

section \<open>Bandit environments (\<^verbatim>\<open>maml_rl/envs/bandit.py\<close>)\<close>

text \<open>
  \<open>k\<close> is the number of arms, \<open>action_space\<close> the size \<open>n\<close> of the space \<^verbatim>\<open>Discrete(n)\<close>
  that the constructor stores, \<open>bandit_task\<close> the attribute \<^verbatim>\<open>_task\<close>, \<open>bandit_means\<close> the
  attribute \<^verbatim>\<open>_means\<close>. The attribute \<^verbatim>\<open>observation_space\<close> is read by no method. The class
  \<^verbatim>\<open>GaussianBanditEnv\<close> has the same attributes and \<^verbatim>\<open>std\<close>, and repeats the methods
  \<^verbatim>\<open>seed\<close>, \<^verbatim>\<open>sample_tasks\<close>, \<^verbatim>\<open>reset_task\<close> and \<^verbatim>\<open>reset\<close> of \<^verbatim>\<open>BernoulliBanditEnv\<close>
  word for word: these four are defined once, for every record with the common fields.
\<close>

record 'g BernoulliBanditEnv =
  k :: nat
  action_space :: nat
  bandit_task :: "real list task"
  bandit_means :: "real list"
  np_random :: 'g

record 'g GaussianBanditEnv = "'g BernoulliBanditEnv" +
  std :: real

text \<open>\<^verbatim>\<open>spaces.Discrete(n).contains(x)\<close> for an integer \<open>x\<close>.\<close>

definition Discrete_contains :: "nat \<Rightarrow> int \<Rightarrow> bool" where
  "Discrete_contains n x \<longleftrightarrow> 0 \<le> x \<and> x < int n"

definition BanditEnv_seed ::
  "'g np_random_api \<Rightarrow> nat \<Rightarrow> nat option \<Rightarrow> ('g, 'm) BernoulliBanditEnv_scheme
     \<Rightarrow> nat list \<times> ('g, 'm) BernoulliBanditEnv_scheme" where
  "BanditEnv_seed R entropy seed' self =
     (case seeding_np_random R entropy seed' of
        (g, s) \<Rightarrow> ([s], self\<lparr>np_random := g\<rparr>))"

text \<open>The constructors; \<^verbatim>\<open>task={}\<close> is the default of the last argument. The
  attribute \<^verbatim>\<open>np_random\<close> is created by the closing \<^verbatim>\<open>self.seed()\<close>, which seeds from
  entropy.\<close>

definition BernoulliBanditEnv_init ::
  "'g np_random_api \<Rightarrow> nat \<Rightarrow> nat \<Rightarrow> real list task \<Rightarrow> 'g BernoulliBanditEnv" where
  "BernoulliBanditEnv_init R entropy k' task' =
     \<lparr>k = k', action_space = k', bandit_task = task',
      bandit_means = (case task' ''mean'' of None \<Rightarrow> np_full k' 0.5 | Some m \<Rightarrow> m),
      np_random = fst (seeding_np_random R entropy None)\<rparr>"

definition GaussianBanditEnv_init ::
  "'g np_random_api \<Rightarrow> nat \<Rightarrow> nat \<Rightarrow> real \<Rightarrow> real list task \<Rightarrow> 'g GaussianBanditEnv" where
  "GaussianBanditEnv_init R entropy k' std' task' =
     \<lparr>k = k', action_space = k', bandit_task = task',
      bandit_means = (case task' ''mean'' of None \<Rightarrow> np_full k' 0.5 | Some m \<Rightarrow> m),
      np_random = fst (seeding_np_random R entropy None), std = std'\<rparr>"

definition BanditEnv_sample_tasks ::
  "'g np_random_api \<Rightarrow> nat \<Rightarrow> ('g, 'm) BernoulliBanditEnv_scheme
     \<Rightarrow> real list task list \<times> ('g, 'm) BernoulliBanditEnv_scheme" where
  "BanditEnv_sample_tasks R num_tasks self =
     (case rng_rand R num_tasks (k self) (np_random self) of
        (means, g) \<Rightarrow> (map (\<lambda>mean. [''mean'' \<mapsto> mean]) means, self\<lparr>np_random := g\<rparr>))"

text \<open>
  \<^verbatim>\<open>reset_task\<close> assigns \<^verbatim>\<open>self._task\<close> first and reads \<^verbatim>\<open>task["mean"]\<close> second. When the
  key is missing the read raises \<open>KeyError\<close> after the first assignment has been done:
  the error result carries the environment as the exception leaves it.
\<close>

definition BanditEnv_reset_task ::
  "real list task \<Rightarrow> ('g, 'm) BernoulliBanditEnv_scheme
     \<Rightarrow> (py_error \<times> ('g, 'm) BernoulliBanditEnv_scheme) + ('g, 'm) BernoulliBanditEnv_scheme" where
  "BanditEnv_reset_task task' self =
     (let self1 = self\<lparr>bandit_task := task'\<rparr>
      in case task' ''mean'' of
           None \<Rightarrow> Inl (KeyError ''mean'', self1)
         | Some m \<Rightarrow> Inr (self1\<lparr>bandit_means := m\<rparr>))"

definition BanditEnv_reset :: "('g, 'm) BernoulliBanditEnv_scheme \<Rightarrow> real list" where
  "BanditEnv_reset self = np_zeros 1"

text \<open>
  \<^verbatim>\<open>step\<close> returns the tuple \<^verbatim>\<open>(observation, reward, True, {"task": self._task})\<close>; the
  dictionary with the single key \<^verbatim>\<open>task\<close> is modelled by its value. The only change to
  the environment is the generator's state, and every exception is raised before it.
\<close>

definition BernoulliBanditEnv_step ::
  "'g np_random_api \<Rightarrow> int \<Rightarrow> 'g BernoulliBanditEnv
     \<Rightarrow> py_error + (real list \<times> int \<times> bool \<times> real list task) \<times> 'g BernoulliBanditEnv" where
  "BernoulliBanditEnv_step R action self =
     (if \<not> Discrete_contains (action_space self) action then Inl AssertionError
      else case getitem (bandit_means self) action of
        Inl err \<Rightarrow> Inl err
      | Inr mean \<Rightarrow>
          (case rng_binomial R 1 mean (np_random self) of
             Inl err \<Rightarrow> Inl err
           | Inr (reward, g) \<Rightarrow>
               Inr ((np_zeros 1, reward, True, bandit_task self), self\<lparr>np_random := g\<rparr>)))"

definition GaussianBanditEnv_step ::
  "'g np_random_api \<Rightarrow> int \<Rightarrow> 'g GaussianBanditEnv
     \<Rightarrow> py_error + (real list \<times> real \<times> bool \<times> real list task) \<times> 'g GaussianBanditEnv" where
  "GaussianBanditEnv_step R action self =
     (if \<not> Discrete_contains (action_space self) action then Inl AssertionError
      else case getitem (bandit_means self) action of
        Inl err \<Rightarrow> Inl err
      | Inr mean \<Rightarrow>
          (case rng_normal R mean (std self) (np_random self) of
             Inl err \<Rightarrow> Inl err
           | Inr (reward, g) \<Rightarrow>
               Inr ((np_zeros 1, reward, True, bandit_task self), self\<lparr>np_random := g\<rparr>)))"

section \<open>Half-cheetah environments (\<^verbatim>\<open>maml_rl/envs/mujoco/half_cheetah.py\<close>)\<close>

text \<open>
  The physics engine is outside the code. Its state (\<^verbatim>\<open>self.data\<close>) is a value of type
  \<open>'sim\<close>, and what the code uses of \<^verbatim>\<open>MujocoEnv\<close> are the fields of an interface record:
  \<^item> \<open>MujocoEnv_init file n\<close>: the simulator state that \<^verbatim>\<open>MujocoEnv.__init__\<close> creates from
    the model file with frame skip \<open>n\<close>, or the exception it raises;
  \<^item> \<open>do_simulation action n d\<close>: the state after \<open>n\<close> frames under the controls \<open>action\<close>,
    or the exception it raises (gymnasium rejects an action of the wrong shape);
  \<^item> \<open>qpos d\<close>: the generalized positions \<^verbatim>\<open>data.qpos\<close>, as the first coordinate (the
    x-position, \<^verbatim>\<open>qpos[0]\<close>) and the remaining ones (\<^verbatim>\<open>qpos.flat[1:]\<close>): the model has
    the root's x-slide as its first coordinate, so the vector is never empty;
  \<^item> \<open>qvel d\<close>: the generalized velocities; \<open>get_body_com name d\<close>: a body's centre of mass;
  \<^item> \<open>dt\<close>: the duration of one step (\<^verbatim>\<open>self.dt\<close>);
  \<^item> \<open>float32\<close>: the rounding of \<^verbatim>\<open>astype(np.float32)\<close>.
\<close>

record 'sim mujoco_api =
  MujocoEnv_init :: "string \<Rightarrow> nat \<Rightarrow> py_error + 'sim"
  do_simulation :: "real list \<Rightarrow> nat \<Rightarrow> 'sim \<Rightarrow> py_error + 'sim"
  qpos :: "'sim \<Rightarrow> real \<times> real list"
  qvel :: "'sim \<Rightarrow> real list"
  get_body_com :: "string \<Rightarrow> 'sim \<Rightarrow> real list"
  dt :: real
  float32 :: "real \<Rightarrow> real"

text \<open>
  The attributes of \<^verbatim>\<open>HalfCheetahEnv\<close>: the three weights that \<^verbatim>\<open>__init__\<close> stores
  (\<^verbatim>\<open>_forward_reward_weight\<close>, \<^verbatim>\<open>_ctrl_cost_weight\<close>, \<^verbatim>\<open>_reset_noise_scale\<close>), and of what
  \<^verbatim>\<open>MujocoEnv\<close> keeps the simulator state \<open>data\<close>, \<open>frame_skip\<close> and the generator
  \<open>hc_np_random\<close> (\<^verbatim>\<open>self.np_random\<close>). The subclasses add \<open>low\<close>, \<open>high\<close>, \<open>vel_task\<close>
  (\<^verbatim>\<open>_task\<close>), \<open>goal_vel\<close> (\<^verbatim>\<open>_goal_vel\<close>), and \<open>dir_task\<close> (\<^verbatim>\<open>_task\<close>), \<open>goal_dir\<close>
  (\<^verbatim>\<open>_goal_dir\<close>).
\<close>

record ('sim, 'g) HalfCheetahEnv =
  forward_reward_weight :: real
  ctrl_cost_weight :: real
  reset_noise_scale :: real
  data :: 'sim
  frame_skip :: nat
  hc_np_random :: 'g

record ('sim, 'g) HalfCheetahVelEnv = "('sim, 'g) HalfCheetahEnv" +
  low :: real
  high :: real
  vel_task :: "real task"
  goal_vel :: real

record ('sim, 'g) HalfCheetahDirEnv = "('sim, 'g) HalfCheetahEnv" +
  dir_task :: "real task"
  goal_dir :: real

text \<open>The dictionary \<^verbatim>\<open>infos\<close> that \<^verbatim>\<open>step\<close> returns, with its three keys.\<close>

record infos =
  reward_forward :: real
  reward_ctrl :: real
  task :: "real task"

text \<open>The defaults of the keyword arguments of \<^verbatim>\<open>HalfCheetahEnv.__init__\<close>.\<close>

definition default_forward_reward_weight :: real where
  "default_forward_reward_weight = 1.0"

definition default_ctrl_cost_weight :: real where
  "default_ctrl_cost_weight = 0.1"

definition default_reset_noise_scale :: real where
  "default_reset_noise_scale = 0.1"

text \<open>
  \<^verbatim>\<open>HalfCheetahEnv.__init__\<close>: stores the weights and calls
  \<^verbatim>\<open>MujocoEnv.__init__(self, "half_cheetah.xml", 5, ...)\<close>. The generator \<open>g\<close> is the one
  the gymnasium base class holds for the new environment. The part of a subclass is
  \<open>more'\<close>.
\<close>

definition HalfCheetahEnv_init ::
  "'sim mujoco_api \<Rightarrow> 'g \<Rightarrow> real \<Rightarrow> real \<Rightarrow> real \<Rightarrow> 'm
     \<Rightarrow> py_error + ('sim, 'g, 'm) HalfCheetahEnv_scheme" where
  "HalfCheetahEnv_init P g forward_reward_weight' ctrl_cost_weight' reset_noise_scale' more' =
     (case MujocoEnv_init P ''half_cheetah.xml'' 5 of
        Inl err \<Rightarrow> Inl err
      | Inr d \<Rightarrow>
          Inr \<lparr>forward_reward_weight = forward_reward_weight',
               ctrl_cost_weight = ctrl_cost_weight',
               reset_noise_scale = reset_noise_scale',
               data = d, frame_skip = 5, hc_np_random = g, \<dots> = more'\<rparr>)"

definition HalfCheetahEnv_get_obs :: "'sim mujoco_api \<Rightarrow> 'sim \<Rightarrow> real list" where
  "HalfCheetahEnv_get_obs P d =
     map (float32 P) (snd (qpos P d) @ qvel P d @ get_body_com P ''torso'' d)"

text \<open>
  \<^verbatim>\<open>HalfCheetahVelEnv.__init__(task, low, high, **kwargs)\<close>: the argument \<^verbatim>\<open>task\<close> is a
  float or a dictionary, and the keyword arguments that reach \<^verbatim>\<open>HalfCheetahEnv.__init__\<close>
  are the three weights.
\<close>

datatype vel_task_arg = TaskFloat real | TaskDict "real task"

definition HalfCheetahVelEnv_init ::
  "'sim mujoco_api \<Rightarrow> 'g \<Rightarrow> vel_task_arg \<Rightarrow> real \<Rightarrow> real \<Rightarrow> real \<Rightarrow> real \<Rightarrow> real
     \<Rightarrow> py_error + ('sim, 'g) HalfCheetahVelEnv" where
  "HalfCheetahVelEnv_init P g task' low' high'
       forward_reward_weight' ctrl_cost_weight' reset_noise_scale' =
     (let task1 = (case task' of TaskFloat v \<Rightarrow> [''velocity'' \<mapsto> v] | TaskDict t \<Rightarrow> t);
          goal = (case task1 ''velocity'' of None \<Rightarrow> 0.0 | Some v \<Rightarrow> v)
      in HalfCheetahEnv_init P g forward_reward_weight' ctrl_cost_weight' reset_noise_scale'
           \<lparr>low = low', high = high', vel_task = task1, goal_vel = goal\<rparr>)"

text \<open>The task reward of the velocity variant, as a function of the goal and the
  forward velocity (\<^verbatim>\<open>-1.0 * abs(forward_vel - self._goal_vel)\<close>).\<close>

definition vel_forward_reward :: "real \<Rightarrow> real \<Rightarrow> real" where
  "vel_forward_reward goal forward_vel = -1.0 * \<bar>forward_vel - goal\<bar>"

text \<open>
  \<^verbatim>\<open>step\<close> returns the tuple \<^verbatim>\<open>(observation, reward, done, truncated, infos)\<close> and leaves
  the simulator in its new state. An exception of \<^verbatim>\<open>do_simulation\<close> propagates.
\<close>

definition HalfCheetahVelEnv_step ::
  "'sim mujoco_api \<Rightarrow> real list \<Rightarrow> ('sim, 'g) HalfCheetahVelEnv
     \<Rightarrow> py_error + (real list \<times> real \<times> bool \<times> bool \<times> infos) \<times> ('sim, 'g) HalfCheetahVelEnv" where
  "HalfCheetahVelEnv_step P action self =
     (let xposbefore = fst (qpos P (data self))
      in case do_simulation P action (frame_skip self) (data self) of
           Inl err \<Rightarrow> Inl err
         | Inr d \<Rightarrow>
            (let xposafter = fst (qpos P d);
                 forward_vel = (xposafter - xposbefore) / dt P;
                 forward_reward = vel_forward_reward (goal_vel self) forward_vel;
                 ctrl_cost = 0.5 * 0.1 * np_sum (np_square action);
                 observation = HalfCheetahEnv_get_obs P d;
                 reward = forward_reward - ctrl_cost;
                 is_done = False;
                 truncated = False;
                 infos = \<lparr>reward_forward = forward_reward, reward_ctrl = - ctrl_cost,
                          task = vel_task self\<rparr>
             in Inr ((observation, reward, is_done, truncated, infos), self\<lparr>data := d\<rparr>)))"

definition HalfCheetahVelEnv_sample_tasks ::
  "'g np_random_api \<Rightarrow> nat \<Rightarrow> ('sim, 'g) HalfCheetahVelEnv
     \<Rightarrow> real task list \<times> ('sim, 'g) HalfCheetahVelEnv" where
  "HalfCheetahVelEnv_sample_tasks R num_tasks self =
     (case rng_uniform R (low self) (high self) num_tasks (hc_np_random self) of
        (velocities, g) \<Rightarrow>
          (map (\<lambda>velocity. [''velocity'' \<mapsto> velocity]) velocities, self\<lparr>hc_np_random := g\<rparr>))"

definition HalfCheetahVelEnv_reset_task ::
  "real task \<Rightarrow> ('sim, 'g) HalfCheetahVelEnv
     \<Rightarrow> (py_error \<times> ('sim, 'g) HalfCheetahVelEnv) + ('sim, 'g) HalfCheetahVelEnv" where
  "HalfCheetahVelEnv_reset_task task' self =
     (let self1 = self\<lparr>vel_task := task'\<rparr>
      in case task' ''velocity'' of
           None \<Rightarrow> Inl (KeyError ''velocity'', self1)
         | Some v \<Rightarrow> Inr (self1\<lparr>goal_vel := v\<rparr>))"

text \<open>\<^verbatim>\<open>HalfCheetahDirEnv.__init__(task)\<close> passes no argument on: the weights are the
  defaults.\<close>

definition HalfCheetahDirEnv_init ::
  "'sim mujoco_api \<Rightarrow> 'g \<Rightarrow> real task \<Rightarrow> py_error + ('sim, 'g) HalfCheetahDirEnv" where
  "HalfCheetahDirEnv_init P g task' =
     HalfCheetahEnv_init P g
       default_forward_reward_weight default_ctrl_cost_weight default_reset_noise_scale
       \<lparr>dir_task = task',
        goal_dir = (case task' ''direction'' of None \<Rightarrow> 1 | Some v \<Rightarrow> v)\<rparr>"

definition HalfCheetahDirEnv_step ::
  "'sim mujoco_api \<Rightarrow> real list \<Rightarrow> ('sim, 'g) HalfCheetahDirEnv
     \<Rightarrow> py_error + (real list \<times> real \<times> bool \<times> bool \<times> infos) \<times> ('sim, 'g) HalfCheetahDirEnv" where
  "HalfCheetahDirEnv_step P action self =
     (let xposbefore = fst (qpos P (data self))
      in case do_simulation P action (frame_skip self) (data self) of
           Inl err \<Rightarrow> Inl err
         | Inr d \<Rightarrow>
            (let xposafter = fst (qpos P d);
                 forward_vel = (xposafter - xposbefore) / dt P;
                 forward_reward = goal_dir self * forward_vel;
                 ctrl_cost = 0.5 * 0.1 * np_sum (np_square action);
                 observation = HalfCheetahEnv_get_obs P d;
                 reward = forward_reward - ctrl_cost;
                 is_done = False;
                 truncated = False;
                 infos = \<lparr>reward_forward = forward_reward, reward_ctrl = - ctrl_cost,
                          task = dir_task self\<rparr>
             in Inr ((observation, reward, is_done, truncated, infos), self\<lparr>data := d\<rparr>)))"

definition HalfCheetahDirEnv_sample_tasks ::
  "'g np_random_api \<Rightarrow> nat \<Rightarrow> ('sim, 'g) HalfCheetahDirEnv
     \<Rightarrow> real task list \<times> ('sim, 'g) HalfCheetahDirEnv" where
  "HalfCheetahDirEnv_sample_tasks R num_tasks self =
     (case rng_binomial_size R 1 0.5 num_tasks (hc_np_random self) of
        (draws, g) \<Rightarrow>
          (map (\<lambda>direction. [''direction'' \<mapsto> direction])
             (map (\<lambda>b. real_of_int (2 * b - 1)) draws),
           self\<lparr>hc_np_random := g\<rparr>))"

definition HalfCheetahDirEnv_reset_task ::
  "real task \<Rightarrow> ('sim, 'g) HalfCheetahDirEnv
     \<Rightarrow> (py_error \<times> ('sim, 'g) HalfCheetahDirEnv) + ('sim, 'g) HalfCheetahDirEnv" where
  "HalfCheetahDirEnv_reset_task task' self =
     (let self1 = self\<lparr>dir_task := task'\<rparr>
      in case task' ''direction'' of
           None \<Rightarrow> Inl (KeyError ''direction'', self1)
         | Some v \<Rightarrow> Inr (self1\<lparr>goal_dir := v\<rparr>))"

section \<open>The base Sampler (\<^verbatim>\<open>maml_rl/samplers/sampler.py\<close>)\<close>

text \<open>
  The Sampler treats its environment as an object of gymnasium. What the constructor
  does with it are the fields of an interface record over the environment's state
  \<open>'env\<close>:
  \<^item> \<open>gym_make name kwargs\<close>: \<^verbatim>\<open>gym.make(env_name, **env_kwargs)\<close>, the new environment or
    the exception raised;
  \<^item> \<open>hasattr_seed e\<close>: \<^verbatim>\<open>hasattr(env, "seed")\<close>;
  \<^item> \<open>env_reset s e\<close>: the environment after \<^verbatim>\<open>env.reset(seed=s)\<close> (the observation it
    returns is dropped by the caller), or the exception raised;
  \<^item> \<open>env_close e\<close>: the environment after \<^verbatim>\<open>env.close()\<close>.
\<close>

record ('kw, 'env) gym_api =
  gym_make :: "string \<Rightarrow> 'kw \<Rightarrow> py_error + 'env"
  hasattr_seed :: "'env \<Rightarrow> bool"
  env_reset :: "nat option \<Rightarrow> 'env \<Rightarrow> py_error + 'env"
  env_close :: "'env \<Rightarrow> 'env"

record ('kw, 'p, 'env) Sampler =
  env_name :: string
  env_kwargs :: 'kw
  batch_size :: int
  policy :: 'p
  seed :: "nat option"
  env :: 'env
  closed :: bool

text \<open>\<^verbatim>\<open>Sampler.__init__(env_name, env_kwargs, batch_size, policy, seed=None, env=None)\<close>.
  An exception of \<^verbatim>\<open>gym.make\<close> or of \<^verbatim>\<open>reset\<close> leaves no Sampler.\<close>

definition Sampler_init ::
  "('kw, 'env) gym_api \<Rightarrow> string \<Rightarrow> 'kw \<Rightarrow> int \<Rightarrow> 'p \<Rightarrow> nat option \<Rightarrow> 'env option
     \<Rightarrow> py_error + ('kw, 'p, 'env) Sampler" where
  "Sampler_init G env_name' env_kwargs' batch_size' policy' seed' env' =
     (case (case env' of None \<Rightarrow> gym_make G env_name' env_kwargs' | Some e \<Rightarrow> Inr e) of
        Inl err \<Rightarrow> Inl err
      | Inr e \<Rightarrow>
          (case (if hasattr_seed G e then env_reset G seed' e else Inr e) of
             Inl err \<Rightarrow> Inl err
           | Inr e1 \<Rightarrow>
               Inr \<lparr>env_name = env_name', env_kwargs = env_kwargs', batch_size = batch_size',
                    policy = policy', seed = seed', env = env_close G e1, closed = False\<rparr>))"

text \<open>
  \<^verbatim>\<open>sample_async(*args, **kwargs)\<close> raises. \<^verbatim>\<open>sample(*args, **kwargs)\<close> calls
  \<^verbatim>\<open>self.sample_async\<close>, the method the object's class provides: the base one or a
  subclass's override, here the first argument.
\<close>

definition Sampler_sample_async :: "'args \<Rightarrow> 'kwargs \<Rightarrow> 'self \<Rightarrow> py_error + 'r" where
  "Sampler_sample_async args kwargs self = Inl NotImplementedError"

definition Sampler_sample ::
  "('args \<Rightarrow> 'kwargs \<Rightarrow> 'self \<Rightarrow> py_error + 'r) \<Rightarrow> 'args \<Rightarrow> 'kwargs \<Rightarrow> 'self \<Rightarrow> py_error + 'r" where
  "Sampler_sample sample_async args kwargs self = sample_async args kwargs self"

section \<open>A concrete random source\<close>

text \<open>
  A linear congruential generator on 31 bits, as an instance of the interface on which
  the definitions can be evaluated. Uniform draws lie in \<open>[0, 1)\<close>; a binomial draw counts
  the uniform draws below \<open>p\<close> and rejects a \<open>p\<close> outside \<open>[0, 1]\<close>, as numpy does.
\<close>

definition lcg_next :: "nat \<Rightarrow> nat" where
  "lcg_next g = (1103515245 * g + 12345) mod 2147483648"

definition lcg_unit :: "nat \<Rightarrow> real" where
  "lcg_unit g = real g / 2147483648"

fun lcg_draws :: "nat \<Rightarrow> nat \<Rightarrow> real list \<times> nat" where
  "lcg_draws 0 g = ([], g)"
| "lcg_draws (Suc n) g =
     (case lcg_draws n (lcg_next g) of (us, g') \<Rightarrow> (lcg_unit (lcg_next g) # us, g'))"

fun lcg_rows :: "nat \<Rightarrow> nat \<Rightarrow> nat \<Rightarrow> real list list \<times> nat" where
  "lcg_rows 0 m g = ([], g)"
| "lcg_rows (Suc n) m g =
     (case lcg_draws m g of (row, g1) \<Rightarrow>
        (case lcg_rows n m g1 of (rows, g2) \<Rightarrow> (row # rows, g2)))"

definition lcg_binomial :: "nat \<Rightarrow> real \<Rightarrow> nat \<Rightarrow> int \<times> nat" where
  "lcg_binomial n p g =
     (case lcg_draws n g of (us, g') \<Rightarrow> (int (length (filter (\<lambda>u. u < p) us)), g'))"

fun lcg_binomials :: "nat \<Rightarrow> real \<Rightarrow> nat \<Rightarrow> nat \<Rightarrow> int list \<times> nat" where
  "lcg_binomials n p 0 g = ([], g)"
| "lcg_binomials n p (Suc m) g =
     (case lcg_binomial n p g of (b, g1) \<Rightarrow>
        (case lcg_binomials n p m g1 of (bs, g2) \<Rightarrow> (b # bs, g2)))"

definition lcg_api :: "nat np_random_api" where
  "lcg_api =
     \<lparr>rng_from_seed = (\<lambda>s. s mod 2147483648),
      rng_rand = lcg_rows,
      rng_uniform = (\<lambda>lo hi n g.
        case lcg_draws n g of (us, g') \<Rightarrow> (map (\<lambda>u. lo + (hi - lo) * u) us, g')),
      rng_binomial = (\<lambda>n p g.
        if p < 0 \<or> 1 < p then Inl ValueError else Inr (lcg_binomial n p g)),
      rng_binomial_size = lcg_binomials,
      rng_normal = (\<lambda>mu sigma g.
        if sigma < 0 then Inl ValueError
        else Inr (mu + sigma * (2 * lcg_unit (lcg_next g) - 1), lcg_next g))\<rparr>"

section \<open>A concrete simulator and a concrete environment registry\<close>

text \<open>
  A one-dimensional simulator as an instance of the physics interface: the state is the
  x-position, a frame moves it by a hundredth of the summed controls, and an action that
  does not have six components is rejected. One step lasts \<open>0.05\<close>.
\<close>

definition line_sim :: "real mujoco_api" where
  "line_sim =
     \<lparr>MujocoEnv_init = (\<lambda>file n.
        if file = ''half_cheetah.xml'' then Inr 0 else Inl (ExternalError file)),
      do_simulation = (\<lambda>action n x.
        if length action = 6 then Inr (x + real n * sum_list action / 100) else Inl ValueError),
      qpos = (\<lambda>x. (x, [])),
      qvel = (\<lambda>x. []),
      get_body_com = (\<lambda>name x. [x, 0, 0]),
      dt = 0.05,
      float32 = (\<lambda>x. x)\<rparr>"

text \<open>
  Environment objects that record what is done to them: whether the class has an
  attribute \<^verbatim>\<open>seed\<close>, the seeds of the \<^verbatim>\<open>reset\<close> calls received (latest first) and
  whether the simulator resources are held. The registry knows two names.
\<close>

record env_handle =
  has_seed :: bool
  reset_seeds :: "nat option list"
  is_open :: bool

definition handle_gym :: "(unit, env_handle) gym_api" where
  "handle_gym =
     \<lparr>gym_make = (\<lambda>name kwargs.
        if name = ''Seedable-v0'' then Inr \<lparr>has_seed = True, reset_seeds = [], is_open = True\<rparr>
        else if name = ''Plain-v0'' then Inr \<lparr>has_seed = False, reset_seeds = [], is_open = True\<rparr>
        else Inl (ExternalError name)),
      hasattr_seed = has_seed,
      env_reset = (\<lambda>s e. Inr (e\<lparr>reset_seeds := s # reset_seeds e, is_open := True\<rparr>)),
      env_close = (\<lambda>e. e\<lparr>is_open := False\<rparr>)\<rparr>"

text \<open>Concrete tasks and environments.\<close>

definition task_10 :: "real list task" where
  "task_10 = [''mean'' \<mapsto> [1, 0]]"

definition task_no_mean :: "real list task" where
  "task_no_mean = Map.empty"

definition bandit_10 :: "nat BernoulliBanditEnv" where
  "bandit_10 =
     \<lparr>k = 2, action_space = 2, bandit_task = task_10, bandit_means = [1, 0], np_random = 42\<rparr>"

definition task_short :: "real list task" where
  "task_short = [''mean'' \<mapsto> [0.5]]"

definition bandit_half :: "nat BernoulliBanditEnv" where
  "bandit_half =
     \<lparr>k = 2, action_space = 2, bandit_task = task_no_mean, bandit_means = [0.5, 0.5],
      np_random = 7\<rparr>"

definition task_vel_1 :: "real task" where
  "task_vel_1 = [''velocity'' \<mapsto> 1]"

definition task_dir_back :: "real task" where
  "task_dir_back = [''direction'' \<mapsto> - 1]"

definition cheetah_vel :: "(real, nat) HalfCheetahVelEnv" where
  "cheetah_vel =
     \<lparr>forward_reward_weight = 1, ctrl_cost_weight = 1, reset_noise_scale = 0.1,
      data = 0, frame_skip = 5, hc_np_random = 0,
      low = 0, high = 2, vel_task = task_vel_1, goal_vel = 1\<rparr>"

definition cheetah_dir :: "(real, nat) HalfCheetahDirEnv" where
  "cheetah_dir =
     \<lparr>forward_reward_weight = 1, ctrl_cost_weight = 0.1, reset_noise_scale = 0.1,
      data = 0, frame_skip = 5, hc_np_random = 0,
      dir_task = task_dir_back, goal_dir = - 1\<rparr>"

definition unit_push :: "real list" where
  "unit_push = [1, 0, 0, 0, 0, 0]"

section \<open>Facts about the concrete instances\<close>

lemma lcg_next_lt: "lcg_next g < 2147483648"
  unfolding lcg_next_def by (rule mod_less_divisor) simp

lemma lcg_unit_lt_1: "lcg_unit (lcg_next g) < 1"
  using lcg_next_lt [of g] by (simp add: lcg_unit_def)

lemma lcg_unit_ge_0: "0 \<le> lcg_unit g"
  by (simp add: lcg_unit_def)

lemma lcg_binomial_one: "rng_binomial lcg_api 1 1 g = Inr (1, lcg_next g)"
  by (simp add: lcg_api_def lcg_binomial_def lcg_unit_lt_1)

lemma lcg_binomial_zero: "rng_binomial lcg_api 1 0 g = Inr (0, lcg_next g)"
  by (simp add: lcg_api_def lcg_binomial_def lcg_unit_ge_0 not_less)

lemma line_sim_push_vel:
  "do_simulation line_sim unit_push (frame_skip cheetah_vel) (data cheetah_vel) = Inr (1 / 20)"
  by (simp add: line_sim_def cheetah_vel_def unit_push_def)

lemma line_sim_push_dir:
  "do_simulation line_sim unit_push (frame_skip cheetah_dir) (data cheetah_dir) = Inr (1 / 20)"
  by (simp add: line_sim_def cheetah_dir_def unit_push_def)

lemma line_sim_readouts:
  "fst (qpos line_sim x) = x" "dt line_sim = 1 / 20"
  by (simp_all add: line_sim_def)

lemma unit_push_cost: "np_sum (np_square unit_push) = 1"
  by (simp add: np_sum_def np_square_def unit_push_def)

section \<open>What a locomotion step returns\<close>

text \<open>When the simulator accepts the action, \<^verbatim>\<open>step\<close> returns, and the whole tuple is
  determined; when the simulator raises, so does \<^verbatim>\<open>step\<close>.\<close>

lemma vel_step_returns:
  assumes "do_simulation P action (frame_skip self) (data self) = Inr d"
  shows "HalfCheetahVelEnv_step P action self =
     Inr ((HalfCheetahEnv_get_obs P d,
           vel_forward_reward (goal_vel self) ((fst (qpos P d) - fst (qpos P (data self))) / dt P)
             - 0.5 * 0.1 * np_sum (np_square action),
           False, False,
           \<lparr>reward_forward =
              vel_forward_reward (goal_vel self) ((fst (qpos P d) - fst (qpos P (data self))) / dt P),
            reward_ctrl = - (0.5 * 0.1 * np_sum (np_square action)),
            task = vel_task self\<rparr>),
          self\<lparr>data := d\<rparr>)"
  using assms by (simp add: HalfCheetahVelEnv_step_def Let_def)

lemma dir_step_returns:
  assumes "do_simulation P action (frame_skip self) (data self) = Inr d"
  shows "HalfCheetahDirEnv_step P action self =
     Inr ((HalfCheetahEnv_get_obs P d,
           goal_dir self * ((fst (qpos P d) - fst (qpos P (data self))) / dt P)
             - 0.5 * 0.1 * np_sum (np_square action),
           False, False,
           \<lparr>reward_forward =
              goal_dir self * ((fst (qpos P d) - fst (qpos P (data self))) / dt P),
            reward_ctrl = - (0.5 * 0.1 * np_sum (np_square action)),
            task = dir_task self\<rparr>),
          self\<lparr>data := d\<rparr>)"
  using assms by (simp add: HalfCheetahDirEnv_step_def Let_def)

lemma vel_step_raises:
  assumes "do_simulation P action (frame_skip self) (data self) = Inl err"
  shows "HalfCheetahVelEnv_step P action self = Inl err"
  using assms by (simp add: HalfCheetahVelEnv_step_def Let_def)

lemma dir_step_raises:
  assumes "do_simulation P action (frame_skip self) (data self) = Inl err"
  shows "HalfCheetahDirEnv_step P action self = Inl err"
  using assms by (simp add: HalfCheetahDirEnv_step_def Let_def)

lemma vel_step_flags:
  assumes "HalfCheetahVelEnv_step P action self = Inr ((obs, r, dn, tr, info), self')"
  shows "\<not> dn \<and> \<not> tr"
  using assms by (auto simp add: HalfCheetahVelEnv_step_def Let_def split: sum.splits)

lemma dir_step_flags:
  assumes "HalfCheetahDirEnv_step P action self = Inr ((obs, r, dn, tr, info), self')"
  shows "\<not> dn \<and> \<not> tr"
  using assms by (auto simp add: HalfCheetahDirEnv_step_def Let_def split: sum.splits)

text \<open>The stored \<^verbatim>\<open>_ctrl_cost_weight\<close> has no influence on a step: changing it changes
  nothing in what \<^verbatim>\<open>step\<close> returns.\<close>

lemma vel_step_ignores_ctrl_cost_weight:
  "HalfCheetahVelEnv_step P action (self\<lparr>ctrl_cost_weight := c\<rparr>) =
     map_sum id (\<lambda>(result, self'). (result, self'\<lparr>ctrl_cost_weight := c\<rparr>))
       (HalfCheetahVelEnv_step P action self)"
  by (simp add: HalfCheetahVelEnv_step_def Let_def split: sum.splits)

lemma dir_step_ignores_ctrl_cost_weight:
  "HalfCheetahDirEnv_step P action (self\<lparr>ctrl_cost_weight := c\<rparr>) =
     map_sum id (\<lambda>(result, self'). (result, self'\<lparr>ctrl_cost_weight := c\<rparr>))
       (HalfCheetahDirEnv_step P action self)"
  by (simp add: HalfCheetahDirEnv_step_def Let_def split: sum.splits)

section \<open>The claims\<close>

subsection \<open>C6: the Bernoulli bandit with mean \<open>[1.0, 0.0]\<close>\<close>

text \<open>
  Claim C6. A Bernoulli bandit whose \<^verbatim>\<open>_means\<close> is \<open>[1.0, 0.0]\<close> (two arms, so its action
  space has at least the actions 0 and 1) returns, whatever the state of its generator, reward 1 for arm 0 and reward 0
  for arm 1, each time with \<open>done = True\<close> and the observation \<open>[0.0]\<close>. The draw itself is
  numpy's: the two hypotheses on \<open>rng_binomial\<close> say that one trial with success
  probability 1 gives 1 and with probability 0 gives 0, from every generator state.
\<close>

theorem bernoulli_step_certain_arms:
  assumes one: "\<forall>g. \<exists>g'. rng_binomial R 1 1 g = Inr (1, g')"
    and zero: "\<forall>g. \<exists>g'. rng_binomial R 1 0 g = Inr (0, g')"
    and means: "bandit_means self = [1, 0]"
    and arms: "2 \<le> action_space self"
  shows "(\<exists>self'. BernoulliBanditEnv_step R 0 self
            = Inr (([0], 1, True, bandit_task self), self'))
       \<and> (\<exists>self'. BernoulliBanditEnv_step R 1 self
            = Inr (([0], 0, True, bandit_task self), self'))"
proof -
  obtain g1 where g1: "rng_binomial R 1 1 (np_random self) = Inr (1, g1)"
    using one by blast
  obtain g0 where g0: "rng_binomial R 1 0 (np_random self) = Inr (0, g0)"
    using zero by blast
  have "BernoulliBanditEnv_step R 0 self
          = Inr (([0], 1, True, bandit_task self), self\<lparr>np_random := g1\<rparr>)"
    using means arms g1
    by (simp add: BernoulliBanditEnv_step_def Discrete_contains_def getitem_def np_zeros_def)
  moreover have "BernoulliBanditEnv_step R 1 self
          = Inr (([0], 0, True, bandit_task self), self\<lparr>np_random := g0\<rparr>)"
    using means arms g0
    by (simp add: BernoulliBanditEnv_step_def Discrete_contains_def getitem_def np_zeros_def)
  ultimately show ?thesis by blast
qed

text \<open>The theorem at the two-armed bandit \<open>bandit_10\<close> over the concrete generator.\<close>

theorem bernoulli_step_certain_arms_witness:
  "bandit_means bandit_10 = [1, 0] \<and> 2 \<le> action_space bandit_10
   \<and> (\<exists>self'. BernoulliBanditEnv_step lcg_api 0 bandit_10
            = Inr (([0], 1, True, bandit_task bandit_10), self'))
   \<and> (\<exists>self'. BernoulliBanditEnv_step lcg_api 1 bandit_10
            = Inr (([0], 0, True, bandit_task bandit_10), self'))"
proof -
  have one: "\<forall>g. \<exists>g'. rng_binomial lcg_api 1 1 g = Inr (1, g')"
    using lcg_binomial_one by blast
  have zero: "\<forall>g. \<exists>g'. rng_binomial lcg_api 1 0 g = Inr (0, g')"
    using lcg_binomial_zero by blast
  have means: "bandit_means bandit_10 = [1, 0]" by (simp add: bandit_10_def)
  have arms: "2 \<le> action_space bandit_10" by (simp add: bandit_10_def)
  show ?thesis
    using bernoulli_step_certain_arms [OF one zero means arms] means arms by simp
qed

subsection \<open>C10: a mean shorter than the number of arms\<close>

text \<open>
  Claim C10. On a Bernoulli bandit constructed with \<open>k'\<close> arms, \<^verbatim>\<open>reset_task\<close> accepts a
  task whose \<^verbatim>\<open>mean\<close> has fewer entries than \<open>k'\<close> and leaves \<open>k\<close> and the action space as
  the constructor set them. A later \<^verbatim>\<open>step\<close> with an action from the length of the mean
  up to \<open>k'\<close> passes the assertion on the action space and raises \<open>IndexError\<close> at
  \<^verbatim>\<open>self._means[action]\<close>; an action outside the action space raises \<open>AssertionError\<close>, a
  different exception.
\<close>

theorem bandit_short_mean_index_error:
  assumes mean: "task' ''mean'' = Some ms"
    and above: "int (length ms) \<le> action"
    and below: "action < int k'"
  shows "\<exists>self'.
           BanditEnv_reset_task task' (BernoulliBanditEnv_init R entropy k' task0) = Inr self'
         \<and> k self' = k' \<and> action_space self' = k'
         \<and> bandit_task self' = task' \<and> bandit_means self' = ms
         \<and> Discrete_contains (action_space self') action
         \<and> BernoulliBanditEnv_step R action self' = Inl IndexError
         \<and> (\<forall>outside. \<not> Discrete_contains (action_space self') outside \<longrightarrow>
              BernoulliBanditEnv_step R outside self' = Inl AssertionError)"
proof -
  let ?self = "BernoulliBanditEnv_init R entropy k' task0"
  let ?self' = "?self\<lparr>bandit_task := task', bandit_means := ms\<rparr>"
  have nonneg: "0 \<le> action" using above by linarith
  have reset: "BanditEnv_reset_task task' ?self = Inr ?self'"
    using mean by (simp add: BanditEnv_reset_task_def)
  have fields: "k ?self' = k'" "action_space ?self' = k'"
    "bandit_task ?self' = task'" "bandit_means ?self' = ms"
    by (simp_all add: BernoulliBanditEnv_init_def)
  have inside: "Discrete_contains (action_space ?self') action"
    using nonneg below fields by (simp add: Discrete_contains_def)
  have index: "getitem ms action = Inl IndexError"
    using above nonneg by (simp add: getitem_def)
  have step: "BernoulliBanditEnv_step R action ?self' = Inl IndexError"
    using inside index by (simp add: BernoulliBanditEnv_step_def)
  have outside: "\<forall>outside. \<not> Discrete_contains (action_space ?self') outside \<longrightarrow>
      BernoulliBanditEnv_step R outside ?self' = Inl AssertionError"
    by (simp add: BernoulliBanditEnv_step_def)
  show ?thesis using reset fields inside step outside by blast
qed

text \<open>A two-armed bandit given a one-entry mean: arm 1 is in the action space and has
  no mean, action 2 is outside the action space.\<close>

theorem bandit_short_mean_index_error_witness:
  "task_short ''mean'' = Some [0.5] \<and> int (length [0.5 :: real]) \<le> 1 \<and> (1 :: int) < int 2
   \<and> (\<exists>self'.
         BanditEnv_reset_task task_short (BernoulliBanditEnv_init lcg_api 5 2 task_10) = Inr self'
       \<and> k self' = 2 \<and> action_space self' = 2 \<and> bandit_means self' = [0.5]
       \<and> Discrete_contains (action_space self') 1
       \<and> BernoulliBanditEnv_step lcg_api 1 self' = Inl IndexError
       \<and> BernoulliBanditEnv_step lcg_api 2 self' = Inl AssertionError)"
proof -
  have mean: "task_short ''mean'' = Some [0.5]" by (simp add: task_short_def)
  have above: "int (length [0.5 :: real]) \<le> 1" by simp
  have below: "(1 :: int) < int 2" by simp
  have out: "\<not> Discrete_contains 2 2" by (simp add: Discrete_contains_def)
  obtain self' where self':
    "BanditEnv_reset_task task_short (BernoulliBanditEnv_init lcg_api 5 2 task_10) = Inr self'"
    "k self' = 2" "action_space self' = 2" "bandit_means self' = [0.5]"
    "Discrete_contains (action_space self') 1"
    "BernoulliBanditEnv_step lcg_api 1 self' = Inl IndexError"
    "\<forall>outside. \<not> Discrete_contains (action_space self') outside \<longrightarrow>
       BernoulliBanditEnv_step lcg_api outside self' = Inl AssertionError"
    using bandit_short_mean_index_error
        [where task' = task_short and ms = "[0.5]" and action = 1 and k' = 2
           and R = lcg_api and entropy = 5 and ?task0.0 = task_10]
      mean above below
    by blast
  have "BernoulliBanditEnv_step lcg_api 2 self' = Inl AssertionError"
    using self'(3,7) out by simp
  then show ?thesis using mean above below self' by blast
qed

subsection \<open>C3: \<^verbatim>\<open>reset_task\<close>\<close>

text \<open>
  Claim C3, as the code has it. In every variant \<^verbatim>\<open>reset_task(task)\<close> with the required
  key present (\<^verbatim>\<open>mean\<close> for a bandit, \<^verbatim>\<open>velocity\<close>, \<^verbatim>\<open>direction\<close> for locomotion) sets both
  the stored task and the reward parameter from the new task. With the key missing it
  raises \<open>KeyError\<close> for that key and substitutes no default; the exception is raised
  after the stored task has been assigned, so the environment it leaves has the new
  task and the reward parameter it had before.
\<close>

theorem reset_task_replaces_or_raises:
  "(bt ''mean'' = Some m \<longrightarrow>
      BanditEnv_reset_task bt b = Inr (b\<lparr>bandit_task := bt, bandit_means := m\<rparr>))
   \<and> (bt ''mean'' = None \<longrightarrow>
      BanditEnv_reset_task bt b = Inl (KeyError ''mean'', b\<lparr>bandit_task := bt\<rparr>))
   \<and> (t ''velocity'' = Some x \<longrightarrow>
      HalfCheetahVelEnv_reset_task t v = Inr (v\<lparr>vel_task := t, goal_vel := x\<rparr>))
   \<and> (t ''velocity'' = None \<longrightarrow>
      HalfCheetahVelEnv_reset_task t v = Inl (KeyError ''velocity'', v\<lparr>vel_task := t\<rparr>))
   \<and> (t ''direction'' = Some y \<longrightarrow>
      HalfCheetahDirEnv_reset_task t w = Inr (w\<lparr>dir_task := t, goal_dir := y\<rparr>))
   \<and> (t ''direction'' = None \<longrightarrow>
      HalfCheetahDirEnv_reset_task t w = Inl (KeyError ''direction'', w\<lparr>dir_task := t\<rparr>))"
  by (simp add: BanditEnv_reset_task_def HalfCheetahVelEnv_reset_task_def
      HalfCheetahDirEnv_reset_task_def)

text \<open>Each of the six cases at a concrete task: a bandit task with and without
  \<^verbatim>\<open>mean\<close>, and for both locomotion variants a velocity task and a direction task, each
  of which lacks the other variant's key.\<close>

theorem reset_task_replaces_or_raises_witness:
  "task_10 ''mean'' = Some [1, 0]
   \<and> BanditEnv_reset_task task_10 bandit_half
       = Inr (bandit_half\<lparr>bandit_task := task_10, bandit_means := [1, 0]\<rparr>)
   \<and> task_no_mean ''mean'' = None
   \<and> BanditEnv_reset_task task_no_mean bandit_half
       = Inl (KeyError ''mean'', bandit_half\<lparr>bandit_task := task_no_mean\<rparr>)
   \<and> task_vel_1 ''velocity'' = Some 1
   \<and> HalfCheetahVelEnv_reset_task task_vel_1 cheetah_vel
       = Inr (cheetah_vel\<lparr>vel_task := task_vel_1, goal_vel := 1\<rparr>)
   \<and> task_dir_back ''velocity'' = None
   \<and> HalfCheetahVelEnv_reset_task task_dir_back cheetah_vel
       = Inl (KeyError ''velocity'', cheetah_vel\<lparr>vel_task := task_dir_back\<rparr>)
   \<and> task_dir_back ''direction'' = Some (- 1)
   \<and> HalfCheetahDirEnv_reset_task task_dir_back cheetah_dir
       = Inr (cheetah_dir\<lparr>dir_task := task_dir_back, goal_dir := - 1\<rparr>)
   \<and> task_vel_1 ''direction'' = None
   \<and> HalfCheetahDirEnv_reset_task task_vel_1 cheetah_dir
       = Inl (KeyError ''direction'', cheetah_dir\<lparr>dir_task := task_vel_1\<rparr>)"
proof -
  have keys: "task_10 ''mean'' = Some [1, 0]" "task_no_mean ''mean'' = None"
    "task_vel_1 ''velocity'' = Some 1" "task_dir_back ''velocity'' = None"
    "task_dir_back ''direction'' = Some (- 1)" "task_vel_1 ''direction'' = None"
    by (simp_all add: task_10_def task_no_mean_def task_vel_1_def task_dir_back_def)
  show ?thesis
    using reset_task_replaces_or_raises
        [where bt = task_10 and m = "[1, 0]" and b = bandit_half
           and t = task_vel_1 and x = 1 and v = cheetah_vel and w = cheetah_dir]
      reset_task_replaces_or_raises
        [where bt = task_no_mean and b = bandit_half
           and t = task_dir_back and y = "- 1" and v = cheetah_vel and w = cheetah_dir]
      keys
    by simp
qed

text \<open>
  Claim C3 as stated fails where it forbids a mixed state. The bandit \<open>bandit_10\<close> runs
  under a task with mean \<open>[1, 0]\<close>; \<^verbatim>\<open>reset_task\<close> with a task that has no \<^verbatim>\<open>mean\<close> raises
  \<open>KeyError\<close> and leaves an environment whose stored task is the new one (no \<^verbatim>\<open>mean\<close>)
  and whose \<^verbatim>\<open>_means\<close> is still \<open>[1, 0]\<close>, the mean of the previous task.
\<close>

theorem reset_task_missing_key_mixes_state:
  "BanditEnv_reset_task task_no_mean bandit_10
     = Inl (KeyError ''mean'', bandit_10\<lparr>bandit_task := task_no_mean\<rparr>)
   \<and> bandit_task bandit_10 ''mean'' = Some [1, 0]
   \<and> bandit_task (bandit_10\<lparr>bandit_task := task_no_mean\<rparr>) ''mean'' = None
   \<and> bandit_means (bandit_10\<lparr>bandit_task := task_no_mean\<rparr>) = [1, 0]"
  by (simp add: BanditEnv_reset_task_def task_no_mean_def bandit_10_def task_10_def)

subsection \<open>C4: the reward of a locomotion step\<close>

text \<open>
  Claim C4. Whenever the simulator performs the step, \<^verbatim>\<open>step\<close> returns, and with
  \<open>forward_vel = (xposafter - xposbefore) / dt\<close> the task reward (\<^verbatim>\<open>reward_forward\<close> of
  \<^verbatim>\<open>infos\<close>) is \<open>- \<bar>forward_vel - goal_vel\<bar>\<close> in the velocity variant and
  \<open>goal_dir * forward_vel\<close> in the direction variant; the returned reward is the task
  reward minus the control cost, whose negation is \<^verbatim>\<open>reward_ctrl\<close> of \<^verbatim>\<open>infos\<close>.
\<close>

theorem locomotion_step_reward:
  "(do_simulation P action (frame_skip v) (data v) = Inr d \<longrightarrow>
      (\<exists>obs r info.
         HalfCheetahVelEnv_step P action v = Inr ((obs, r, False, False, info), v\<lparr>data := d\<rparr>)
         \<and> reward_forward info = - \<bar>(fst (qpos P d) - fst (qpos P (data v))) / dt P - goal_vel v\<bar>
         \<and> reward_ctrl info = - (0.5 * 0.1 * np_sum (np_square action))
         \<and> r = reward_forward info - 0.5 * 0.1 * np_sum (np_square action)))
   \<and> (do_simulation P action (frame_skip w) (data w) = Inr d' \<longrightarrow>
      (\<exists>obs r info.
         HalfCheetahDirEnv_step P action w = Inr ((obs, r, False, False, info), w\<lparr>data := d'\<rparr>)
         \<and> reward_forward info = goal_dir w * ((fst (qpos P d') - fst (qpos P (data w))) / dt P)
         \<and> reward_ctrl info = - (0.5 * 0.1 * np_sum (np_square action))
         \<and> r = reward_forward info - 0.5 * 0.1 * np_sum (np_square action)))"
  by (simp add: vel_step_returns dir_step_returns vel_forward_reward_def)

text \<open>
  On the line simulator the action \<open>unit_push\<close> moves the cheetah by \<open>1/20\<close> in a step of
  \<open>1/20\<close>, a forward velocity of 1. With goal velocity 1 the task reward is 0 and the
  reward \<open>-1/20\<close>; with goal direction \<open>-1\<close> the task reward is \<open>-1\<close> and the reward
  \<open>-21/20\<close>.
\<close>

theorem locomotion_step_reward_witness:
  "do_simulation line_sim unit_push (frame_skip cheetah_vel) (data cheetah_vel) = Inr (1 / 20)
   \<and> (\<exists>obs info.
        HalfCheetahVelEnv_step line_sim unit_push cheetah_vel
          = Inr ((obs, - (1 / 20), False, False, info), cheetah_vel\<lparr>data := 1 / 20\<rparr>)
        \<and> reward_forward info = 0 \<and> reward_ctrl info = - (1 / 20))
   \<and> do_simulation line_sim unit_push (frame_skip cheetah_dir) (data cheetah_dir) = Inr (1 / 20)
   \<and> (\<exists>obs info.
        HalfCheetahDirEnv_step line_sim unit_push cheetah_dir
          = Inr ((obs, - (21 / 20), False, False, info), cheetah_dir\<lparr>data := 1 / 20\<rparr>)
        \<and> reward_forward info = - 1 \<and> reward_ctrl info = - (1 / 20))"
proof -
  have goals: "goal_vel cheetah_vel = 1" "goal_dir cheetah_dir = - 1"
    "data cheetah_vel = 0" "data cheetah_dir = 0"
    by (simp_all add: cheetah_vel_def cheetah_dir_def)
  show ?thesis
    using locomotion_step_reward
        [where P = line_sim and action = unit_push and v = cheetah_vel and d = "1 / 20"
           and w = cheetah_dir and d' = "1 / 20"]
      line_sim_push_vel line_sim_push_dir
    by (auto simp add: line_sim_readouts unit_push_cost goals)
qed

subsection \<open>C7: a locomotion step never ends the episode\<close>

text \<open>
  Claim C7. In both locomotion variants, from every state and for every action:
  whenever the simulator performs the step, \<^verbatim>\<open>step\<close> returns with \<open>done = False\<close> and
  \<open>truncated = False\<close>, and no tuple that \<^verbatim>\<open>step\<close> returns has either flag set.
\<close>

theorem locomotion_step_never_terminates:
  "(do_simulation P action (frame_skip v) (data v) = Inr d \<longrightarrow>
      (\<exists>obs r info v'. HalfCheetahVelEnv_step P action v = Inr ((obs, r, False, False, info), v')))
   \<and> (HalfCheetahVelEnv_step P action v = Inr ((obs1, r1, done1, truncated1, info1), v1) \<longrightarrow>
      \<not> done1 \<and> \<not> truncated1)
   \<and> (do_simulation P action (frame_skip w) (data w) = Inr d' \<longrightarrow>
      (\<exists>obs r info w'. HalfCheetahDirEnv_step P action w = Inr ((obs, r, False, False, info), w')))
   \<and> (HalfCheetahDirEnv_step P action w = Inr ((obs2, r2, done2, truncated2, info2), w2) \<longrightarrow>
      \<not> done2 \<and> \<not> truncated2)"
proof -
  have "do_simulation P action (frame_skip v) (data v) = Inr d \<longrightarrow>
      (\<exists>obs r info v'. HalfCheetahVelEnv_step P action v = Inr ((obs, r, False, False, info), v'))"
    by (simp add: vel_step_returns)
  moreover have "HalfCheetahVelEnv_step P action v = Inr ((obs1, r1, done1, truncated1, info1), v1)
      \<longrightarrow> \<not> done1 \<and> \<not> truncated1"
    using vel_step_flags by blast
  moreover have "do_simulation P action (frame_skip w) (data w) = Inr d' \<longrightarrow>
      (\<exists>obs r info w'. HalfCheetahDirEnv_step P action w = Inr ((obs, r, False, False, info), w'))"
    by (simp add: dir_step_returns)
  moreover have "HalfCheetahDirEnv_step P action w = Inr ((obs2, r2, done2, truncated2, info2), w2)
      \<longrightarrow> \<not> done2 \<and> \<not> truncated2"
    using dir_step_flags by blast
  ultimately show ?thesis by blast
qed

text \<open>Both variants on the line simulator: the simulator performs the step, and the step
  returned has both flags \<open>False\<close>.\<close>

theorem locomotion_step_never_terminates_witness:
  "do_simulation line_sim unit_push (frame_skip cheetah_vel) (data cheetah_vel) = Inr (1 / 20)
   \<and> (\<exists>obs r info v'.
        HalfCheetahVelEnv_step line_sim unit_push cheetah_vel
          = Inr ((obs, r, False, False, info), v'))
   \<and> do_simulation line_sim unit_push (frame_skip cheetah_dir) (data cheetah_dir) = Inr (1 / 20)
   \<and> (\<exists>obs r info w'.
        HalfCheetahDirEnv_step line_sim unit_push cheetah_dir
          = Inr ((obs, r, False, False, info), w'))"
  using locomotion_step_never_terminates
      [where P = line_sim and action = unit_push and v = cheetah_vel and d = "1 / 20"
         and w = cheetah_dir and d' = "1 / 20"]
    line_sim_push_vel line_sim_push_dir
  by simp

subsection \<open>C8: the velocity reward is maximal exactly at the goal\<close>

text \<open>
  Claim C8. The task reward of the velocity variant, \<open>v \<mapsto> - \<bar>v - goal\<bar>\<close>, is never
  positive, is 0 exactly when \<open>v = goal\<close>, and is strictly larger at the velocity that is
  strictly closer to the goal.
\<close>

theorem vel_forward_reward_maximal_at_goal:
  "vel_forward_reward goal v \<le> 0
   \<and> (vel_forward_reward goal v = 0 \<longleftrightarrow> v = goal)
   \<and> (\<bar>v1 - goal\<bar> < \<bar>v2 - goal\<bar> \<longrightarrow> vel_forward_reward goal v2 < vel_forward_reward goal v1)"
  by (simp add: vel_forward_reward_def)

text \<open>With goal 1: the reward is 0 at velocity 1, and velocity \<open>3/2\<close>, closer to the goal
  than velocity 0, has the larger reward.\<close>

theorem vel_forward_reward_maximal_at_goal_witness:
  "vel_forward_reward 1 3 \<le> 0 \<and> vel_forward_reward 1 1 = 0
   \<and> \<bar>(3/2 :: real) - 1\<bar> < \<bar>0 - 1\<bar> \<and> vel_forward_reward 1 0 < vel_forward_reward 1 (3/2)"
proof -
  have closer: "\<bar>(3/2 :: real) - 1\<bar> < \<bar>0 - 1\<bar>" by simp
  show ?thesis
    using vel_forward_reward_maximal_at_goal [of 1 3 "3/2" 0]
      vel_forward_reward_maximal_at_goal [of 1 1 "3/2" 0] closer
    by simp
qed

subsection \<open>C9: the abstract operations of the base Sampler\<close>

text \<open>
  Claim C9. For every argument list, \<^verbatim>\<open>sample_async\<close> of the base Sampler raises
  \<open>NotImplementedError\<close>, and so does \<^verbatim>\<open>sample\<close> on the base Sampler; \<^verbatim>\<open>sample\<close> does
  nothing but call the object's \<^verbatim>\<open>sample_async\<close> with its own arguments, whichever
  implementation that is.
\<close>

theorem base_sampler_not_implemented:
  "Sampler_sample_async args kwargs self = Inl NotImplementedError
   \<and> Sampler_sample Sampler_sample_async args kwargs self = Inl NotImplementedError
   \<and> Sampler_sample override args kwargs self = override args kwargs self"
  by (simp add: Sampler_sample_async_def Sampler_sample_def)

subsection \<open>C5: \<^verbatim>\<open>sample_tasks\<close> draws from the environment's generator only\<close>

text \<open>
  Claim C5. Two bandits with the same number of arms, seeded with the same integer
  seed, return the same tasks from \<^verbatim>\<open>sample_tasks(n)\<close>, whatever their tasks, their
  earlier generator states and the entropy of the system. In every variant the tasks
  returned and the generator state left are determined by the generator state of the
  environment and the parameters of the distribution (\<open>k\<close>; \<open>low\<close> and \<open>high\<close>; none for
  the direction variant): two environments that agree on these return the same tasks.
  The locomotion classes have no seeding method of their own; seeding them alike gives
  them the same generator state.
\<close>

theorem sample_tasks_deterministic:
  "(k b1 = k b2 \<longrightarrow>
      fst (BanditEnv_sample_tasks R n (snd (BanditEnv_seed R entropy1 (Some s) b1)))
        = fst (BanditEnv_sample_tasks R n (snd (BanditEnv_seed R entropy2 (Some s) b2))))
   \<and> (k b1 = k b2 \<and> np_random b1 = np_random b2 \<longrightarrow>
      fst (BanditEnv_sample_tasks R n b1) = fst (BanditEnv_sample_tasks R n b2)
      \<and> np_random (snd (BanditEnv_sample_tasks R n b1))
          = np_random (snd (BanditEnv_sample_tasks R n b2)))
   \<and> (low v1 = low v2 \<and> high v1 = high v2 \<and> hc_np_random v1 = hc_np_random v2 \<longrightarrow>
      fst (HalfCheetahVelEnv_sample_tasks R n v1) = fst (HalfCheetahVelEnv_sample_tasks R n v2)
      \<and> hc_np_random (snd (HalfCheetahVelEnv_sample_tasks R n v1))
          = hc_np_random (snd (HalfCheetahVelEnv_sample_tasks R n v2)))
   \<and> (hc_np_random w1 = hc_np_random w2 \<longrightarrow>
      fst (HalfCheetahDirEnv_sample_tasks R n w1) = fst (HalfCheetahDirEnv_sample_tasks R n w2)
      \<and> hc_np_random (snd (HalfCheetahDirEnv_sample_tasks R n w1))
          = hc_np_random (snd (HalfCheetahDirEnv_sample_tasks R n w2)))"
  by (simp add: BanditEnv_sample_tasks_def BanditEnv_seed_def seeding_np_random_def
      HalfCheetahVelEnv_sample_tasks_def HalfCheetahDirEnv_sample_tasks_def
      split: prod.splits)

text \<open>Two bandits with different tasks, means and generator states, seeded with 11 under
  different entropy; and pairs of environments that differ in their goal only.\<close>

theorem sample_tasks_deterministic_witness:
  "k bandit_10 = k bandit_half
   \<and> fst (BanditEnv_sample_tasks lcg_api 3 (snd (BanditEnv_seed lcg_api 1 (Some 11) bandit_10)))
       = fst (BanditEnv_sample_tasks lcg_api 3 (snd (BanditEnv_seed lcg_api 2 (Some 11) bandit_half)))
   \<and> np_random bandit_10 = np_random (bandit_half\<lparr>np_random := 42\<rparr>)
   \<and> fst (BanditEnv_sample_tasks lcg_api 3 bandit_10)
       = fst (BanditEnv_sample_tasks lcg_api 3 (bandit_half\<lparr>np_random := 42\<rparr>))
   \<and> low cheetah_vel = low (cheetah_vel\<lparr>goal_vel := 2\<rparr>)
   \<and> fst (HalfCheetahVelEnv_sample_tasks lcg_api 3 cheetah_vel)
       = fst (HalfCheetahVelEnv_sample_tasks lcg_api 3 (cheetah_vel\<lparr>goal_vel := 2\<rparr>))
   \<and> hc_np_random cheetah_dir = hc_np_random (cheetah_dir\<lparr>goal_dir := 1\<rparr>)
   \<and> fst (HalfCheetahDirEnv_sample_tasks lcg_api 3 cheetah_dir)
       = fst (HalfCheetahDirEnv_sample_tasks lcg_api 3 (cheetah_dir\<lparr>goal_dir := 1\<rparr>))"
proof -
  have arms: "k bandit_10 = k bandit_half" "k bandit_10 = k (bandit_half\<lparr>np_random := 42\<rparr>)"
    by (simp_all add: bandit_10_def bandit_half_def)
  have gen: "np_random bandit_10 = np_random (bandit_half\<lparr>np_random := 42\<rparr>)"
    by (simp add: bandit_10_def)
  show ?thesis
    using sample_tasks_deterministic
        [where ?b1.0 = bandit_10 and ?b2.0 = bandit_half and R = lcg_api and n = 3
           and ?entropy1.0 = 1 and ?entropy2.0 = 2 and s = 11
           and ?v1.0 = cheetah_vel and ?v2.0 = "cheetah_vel\<lparr>goal_vel := 2\<rparr>"
           and ?w1.0 = cheetah_dir and ?w2.0 = "cheetah_dir\<lparr>goal_dir := 1\<rparr>"]
      sample_tasks_deterministic
        [where ?b1.0 = bandit_10 and ?b2.0 = "bandit_half\<lparr>np_random := 42\<rparr>" and R = lcg_api
           and n = 3
           and ?v1.0 = cheetah_vel and ?v2.0 = "cheetah_vel\<lparr>goal_vel := 2\<rparr>"
           and ?w1.0 = cheetah_dir and ?w2.0 = "cheetah_dir\<lparr>goal_dir := 1\<rparr>"]
      arms gen
    by simp
qed

subsection \<open>C2: what the Sampler's constructor does to its environment\<close>

text \<open>
  Claim C2, as the code has it. Let \<open>e\<close> be the environment of the construction, the one
  passed in or the one \<^verbatim>\<open>gym.make\<close> returns. If \<open>e\<close> has an attribute \<^verbatim>\<open>seed\<close> and
  \<^verbatim>\<open>e.reset(seed=seed)\<close> returns, the Sampler is built on the environment so seeded and
  then closed. If \<open>e\<close> has no attribute \<^verbatim>\<open>seed\<close>, the seed is stored in the Sampler and not
  applied to the environment, which is closed as it is. In both cases \<^verbatim>\<open>close\<close> is the
  last thing done to the environment before the constructor returns, the Sampler keeps
  the closed environment, and its own flag \<^verbatim>\<open>closed\<close> is \<open>False\<close>.
\<close>

theorem sampler_init_seeds_if_seedable_then_closes:
  assumes acquired:
    "(case env' of None \<Rightarrow> gym_make G name kwargs | Some given \<Rightarrow> Inr given) = Inr e"
  shows "(hasattr_seed G e \<and> env_reset G seed' e = Inr e1 \<longrightarrow>
            Sampler_init G name kwargs b p seed' env' =
              Inr \<lparr>env_name = name, env_kwargs = kwargs, batch_size = b, policy = p,
                   seed = seed', env = env_close G e1, closed = False\<rparr>)
       \<and> (\<not> hasattr_seed G e \<longrightarrow>
            Sampler_init G name kwargs b p seed' env' =
              Inr \<lparr>env_name = name, env_kwargs = kwargs, batch_size = b, policy = p,
                   seed = seed', env = env_close G e, closed = False\<rparr>)"
  using acquired by (simp add: Sampler_init_def)

text \<open>A Sampler that makes a seedable environment, and a Sampler that is given an
  environment without the attribute.\<close>

theorem sampler_init_seeds_if_seedable_then_closes_witness:
  "Sampler_init handle_gym ''Seedable-v0'' () 20 () (Some 7) None =
     Inr \<lparr>env_name = ''Seedable-v0'', env_kwargs = (), batch_size = 20, policy = (),
          seed = Some 7,
          env = \<lparr>has_seed = True, reset_seeds = [Some 7], is_open = False\<rparr>,
          closed = False\<rparr>
   \<and> Sampler_init handle_gym ''Plain-v0'' () 20 () (Some 7)
        (Some \<lparr>has_seed = False, reset_seeds = [], is_open = True\<rparr>) =
     Inr \<lparr>env_name = ''Plain-v0'', env_kwargs = (), batch_size = 20, policy = (),
          seed = Some 7,
          env = \<lparr>has_seed = False, reset_seeds = [], is_open = False\<rparr>,
          closed = False\<rparr>"
proof -
  have made: "(case None of None \<Rightarrow> gym_make handle_gym ''Seedable-v0'' ()
                | Some given \<Rightarrow> Inr given)
      = Inr \<lparr>has_seed = True, reset_seeds = [], is_open = True\<rparr>"
    by (simp add: handle_gym_def)
  have given: "(case Some \<lparr>has_seed = False, reset_seeds = [], is_open = True\<rparr> of
                  None \<Rightarrow> gym_make handle_gym ''Plain-v0'' () | Some given \<Rightarrow> Inr given)
      = Inr \<lparr>has_seed = False, reset_seeds = [], is_open = True\<rparr>"
    by simp
  have seedable: "hasattr_seed handle_gym \<lparr>has_seed = True, reset_seeds = [], is_open = True\<rparr>
      \<and> env_reset handle_gym (Some 7) \<lparr>has_seed = True, reset_seeds = [], is_open = True\<rparr>
          = Inr \<lparr>has_seed = True, reset_seeds = [Some 7], is_open = True\<rparr>"
    by (simp add: handle_gym_def)
  have plain: "\<not> hasattr_seed handle_gym \<lparr>has_seed = False, reset_seeds = [], is_open = True\<rparr>"
    by (simp add: handle_gym_def)
  have close1: "env_close handle_gym \<lparr>has_seed = True, reset_seeds = [Some 7], is_open = True\<rparr>
      = \<lparr>has_seed = True, reset_seeds = [Some 7], is_open = False\<rparr>"
    by (simp add: handle_gym_def)
  have close2: "env_close handle_gym \<lparr>has_seed = False, reset_seeds = [], is_open = True\<rparr>
      = \<lparr>has_seed = False, reset_seeds = [], is_open = False\<rparr>"
    by (simp add: handle_gym_def)
  show ?thesis
    using sampler_init_seeds_if_seedable_then_closes [OF made,
        where ?e1.0 = "\<lparr>has_seed = True, reset_seeds = [Some 7], is_open = True\<rparr>"
          and seed' = "Some 7" and b = 20 and p = "()"]
      sampler_init_seeds_if_seedable_then_closes [OF given,
        where seed' = "Some 7" and b = 20 and p = "()"]
      seedable plain close1 close2
    by simp
qed

text \<open>
  Claim C2 as stated fails where it says that every construction applies the seed. The
  registry's \<^verbatim>\<open>Plain-v0\<close> has no attribute \<^verbatim>\<open>seed\<close>: a Sampler constructed on it with seed
  7 stores the seed, and its environment, closed, has received no \<^verbatim>\<open>reset\<close> at all.
\<close>

theorem sampler_init_seed_not_applied:
  "Sampler_init handle_gym ''Plain-v0'' () 20 () (Some 7) None =
     Inr \<lparr>env_name = ''Plain-v0'', env_kwargs = (), batch_size = 20, policy = (),
          seed = Some 7,
          env = \<lparr>has_seed = False, reset_seeds = [], is_open = False\<rparr>,
          closed = False\<rparr>"
  by (simp add: Sampler_init_def handle_gym_def)

subsection \<open>C1: the control cost and the constructor's weight\<close>

text \<open>
  Claim C1 at a velocity environment constructed with \<^verbatim>\<open>ctrl_cost_weight=1.0\<close> and the
  action \<open>unit_push\<close>, whose squares sum to 1. The constructor stores the weight 1, and
  the step subtracts a control cost of \<open>1/20\<close> from the task reward (\<^verbatim>\<open>reward_ctrl\<close> is
  \<open>-1/20\<close>), where \<open>0.5 * ctrl_cost_weight * sum(action^2)\<close> is \<open>1/2\<close>: \<^verbatim>\<open>step\<close> multiplies
  by the literal \<^verbatim>\<open>1e-1\<close> and does not read the stored weight.
\<close>

theorem vel_step_ctrl_cost_at_unit_weight:
  "(case HalfCheetahVelEnv_init line_sim (0::nat) (TaskFloat 1) 0 2 1 1 0.1 of
      Inl err \<Rightarrow> False
    | Inr self \<Rightarrow>
        ctrl_cost_weight self = 1 \<and>
        (case HalfCheetahVelEnv_step line_sim unit_push self of
           Inl err \<Rightarrow> False
         | Inr ((obs, r, dn, tr, info), self') \<Rightarrow>
             reward_forward info - r = 1 / 20 \<and> reward_ctrl info = - (1 / 20) \<and>
             0.5 * ctrl_cost_weight self * np_sum (np_square unit_push) = 1 / 2))"
  by (simp add: HalfCheetahVelEnv_init_def HalfCheetahEnv_init_def line_sim_def
      HalfCheetahVelEnv_step_def Let_def np_sum_def np_square_def unit_push_def)

end
